theory Spec2Isabelle
  imports Complex_Main
begin

section \<open>Text\<close>

text \<open>
  Python text is modelled by \<^typ>\<open>string\<close>: a list of characters with code points
  0 to 255. \<open>str.lower\<close>, \<open>str.strip\<close>, \<open>str.startswith\<close> and the formatting of a
  value inside an f-string are written out for this range.
\<close>

definition is_space :: "char \<Rightarrow> bool" where
  "is_space c = (of_char c \<in> {9, 10, 11, 12, 13, 28, 29, 30, 31, 32, 133, 160 :: nat})"

definition strip :: "string \<Rightarrow> string" where
  "strip s = rev (dropWhile is_space (rev (dropWhile is_space s)))"

definition lower_char :: "char \<Rightarrow> char" where
  "lower_char c =
     (let n = (of_char c :: nat)
      in if (65 \<le> n \<and> n \<le> 90) \<or> (192 \<le> n \<and> n \<le> 222 \<and> n \<noteq> 215)
         then char_of (n + 32) else c)"

definition lower :: "string \<Rightarrow> string" where
  "lower s = map lower_char s"

fun startswith :: "string \<Rightarrow> string \<Rightarrow> bool" where
  "startswith s [] = True"
| "startswith [] (p # ps) = False"
| "startswith (c # cs) (p # ps) = (c = p \<and> startswith cs ps)"

text \<open>
  A value that is either text or Python's \<open>None\<close> is a \<^typ>\<open>string option\<close>.
  \<open>py_str\<close> is what an f-string prints for it; \<open>truthy\<close> is its truth value in an
  \<open>if\<close>.
\<close>

fun py_str :: "string option \<Rightarrow> string" where
  "py_str None = ''None''"
| "py_str (Some s) = s"

fun truthy :: "'a list option \<Rightarrow> bool" where
  "truthy None = False"
| "truthy (Some []) = False"
| "truthy (Some (x # xs)) = True"

section \<open>Turns and histories\<close>

text \<open>
  A turn is the dictionary \<open>{"role": ..., "content": ...}\<close>; a history is a Python list
  of them. The content is text, or \<open>None\<close> where the program stores \<open>None\<close>.
\<close>

record turn =
  role :: string
  content :: "string option"

definition system_turn :: "string \<Rightarrow> turn" where
  "system_turn decorator = \<lparr>role = ''system'', content = Some decorator\<rparr>"

definition user_turn :: "string option \<Rightarrow> turn" where
  "user_turn prompt = \<lparr>role = ''user'', content = prompt\<rparr>"

definition assistant_turn :: "string option \<Rightarrow> turn" where
  "assistant_turn reply = \<lparr>role = ''assistant'', content = reply\<rparr>"

text \<open>
  The loop \<open>for decorator in decorators: history.append({"role": "system", "content":
  decorator})\<close>, which occurs in \<open>chat\<close> (lines 97 to 103) and in \<open>main\<close> (lines 224 to
  230).
\<close>

fun append_decorators :: "turn list \<Rightarrow> string list \<Rightarrow> turn list" where
  "append_decorators history [] = history"
| "append_decorators history (decorator # decorators) =
     append_decorators (history @ [system_turn decorator]) decorators"

section \<open>The provider libraries\<close>

text \<open>
  The two provider libraries are outside the program. A call into one of them either
  raises or returns a response.

  \<^item> \<open>openai.ChatCompletion.create(**args)\<close> receives the keyword arguments
    \<open>max_tokens\<close>, \<open>model\<close>, \<open>request_timeout\<close>, \<open>stream\<close>, \<open>temperature\<close>, \<open>messages\<close>,
    in this order in \<open>Openai_args\<close>. With streaming it returns a generator of chunks,
    which may itself raise after some chunks; a chunk is represented by what the program
    reads from it, \<open>token["choices"][0]["delta"].get("content")\<close>. Without streaming it
    returns one dictionary-like payload, represented by its text.
  \<^item> \<open>Client.completion\<close> receives \<open>prompt\<close>, \<open>stop_sequences\<close>, \<open>model\<close>,
    \<open>max_tokens_to_sample\<close>, in this order in \<open>Anthropic_args\<close>, and returns a dictionary
    whose \<open>completion\<close> entry is the text.
\<close>

datatype error = APIError string | TypeError | EOFError | OSError

type_synonym chunk = "string option"

datatype openai_response = Stream "chunk list" "error option" | Payload string

datatype openai_args = Openai_args int string int bool real "turn list"

datatype anthropic_args = Anthropic_args string "string list" string int

datatype request = OpenAI openai_args | Anthropic anthropic_args

record sdk =
  ChatCompletion_create :: "openai_args \<Rightarrow> error + openai_response"
  Client_completion :: "anthropic_args \<Rightarrow> error + string"

text \<open>The markers \<open>anthropic.HUMAN_PROMPT\<close> and \<open>anthropic.AI_PROMPT\<close> of the library.\<close>

definition HUMAN_PROMPT :: string where
  "HUMAN_PROMPT = [CHR 0x0A, CHR 0x0A] @ ''Human:''"

definition AI_PROMPT :: string where
  "AI_PROMPT = [CHR 0x0A, CHR 0x0A] @ ''Assistant:''"

section \<open>The dispatcher \<open>chat\<close>\<close>

text \<open>
  The loop of lines 110 to 115: \<open>response\<close> grows by every chunk content that is
  neither \<open>None\<close> nor empty.
\<close>

fun accumulate :: "string \<Rightarrow> chunk list \<Rightarrow> string" where
  "accumulate response [] = response"
| "accumulate response (None # tokens) = accumulate response tokens"
| "accumulate response (Some text # tokens) =
     (if text \<noteq> [] then accumulate (response @ text) tokens
      else accumulate response tokens)"

text \<open>
  Iterating the result of \<open>openai.ChatCompletion.create\<close>. A generator is drained and may
  raise at its end. A payload is a dictionary: iterating it yields its keys, which are
  texts, and \<open>token["choices"]\<close> on a text raises \<open>TypeError\<close>.
\<close>

fun iterate_response :: "openai_response \<Rightarrow> error + string option" where
  "iterate_response (Stream tokens None) = Inr (Some (accumulate [] tokens))"
| "iterate_response (Stream tokens (Some e)) = Inl e"
| "iterate_response (Payload text) = Inl TypeError"

text \<open>
  \<open>chat\<close> (lines 57 to 125). The result is the list of requests handed to a provider
  library (none or one) and what the call does: it raises (\<open>Inl\<close>), returns text
  (\<open>Inr (Some _)\<close>) or returns \<open>None\<close> (\<open>Inr None\<close>), which is what a Python function
  returns when it reaches its end.
\<close>

definition chat ::
  "sdk \<Rightarrow> string option \<Rightarrow> string list \<Rightarrow> string \<Rightarrow> int \<Rightarrow> bool \<Rightarrow> int \<Rightarrow> real \<Rightarrow>
   turn list option \<Rightarrow> string \<Rightarrow> request list \<times> (error + string option)" where
  "chat lib prompt decorators model max_tokens stream request_timeout temperature
        history engine =
     (if engine = ''openai'' then
        let messages =
              (if truthy history then the history
               else append_decorators [] decorators @ [user_turn prompt]);
            args = Openai_args max_tokens model request_timeout stream temperature messages
        in ([OpenAI args],
            case ChatCompletion_create lib args of
              Inl e \<Rightarrow> Inl e
            | Inr response \<Rightarrow> iterate_response response)
      else if engine = ''anthropic'' then
        let args = Anthropic_args
                     (HUMAN_PROMPT @ '' '' @ py_str prompt @ '' '' @ AI_PROMPT)
                     [HUMAN_PROMPT] model max_tokens
        in ([Anthropic args],
            case Client_completion lib args of
              Inl e \<Rightarrow> Inl e
            | Inr completion \<Rightarrow> Inr (Some completion))
      else ([], Inr None))"

definition transmitted ::
  "request list \<times> (error + string option) \<Rightarrow> request list" where
  "transmitted r = fst r"

definition returned ::
  "request list \<times> (error + string option) \<Rightarrow> error + string option" where
  "returned r = snd r"

section \<open>The session store\<close>

text \<open>
  \<open>os.path.join\<close> of a directory and a file name, on a POSIX system.
\<close>

definition path_join :: "string \<Rightarrow> string \<Rightarrow> string" where
  "path_join a b =
     (if startswith b ''/'' then b
      else if a = [] \<or> last a = CHR ''/'' then a @ b
      else a @ ''/'' @ b)"

text \<open>
  A path that is empty or ends with a slash does not name a file: \<open>open\<close> raises an
  \<open>OSError\<close> on it, for reading and for writing. On every other path writing is taken to
  succeed, the directories being created first (line 263).
\<close>

definition names_no_file :: "string \<Rightarrow> bool" where
  "names_no_file path = (path = [] \<or> last path = CHR ''/'')"

text \<open>
  The state of a run of \<open>main\<close>: its variable \<open>history\<close>, the session files by full
  path, what it has printed (the prints of lines 266, 271 and 290; the banners printed
  before the first prompt are left out) and the requests handed to a provider library so
  far. A session file is represented by the history that \<open>json.dump\<close> wrote into it:
  \<open>json.load\<close> gives back a list of dictionaries whose values are text or \<open>None\<close> as it
  was written.
\<close>

record state =
  history :: "turn list"
  sessions :: "string \<rightharpoonup> turn list"
  stdout :: "string list"
  sent :: "request list"

text \<open>The \<open>/save\<close> command, lines 261 to 266.\<close>

definition save_session :: "string \<Rightarrow> string \<Rightarrow> state \<Rightarrow> error + state" where
  "save_session sessions_data_dir prompt s =
     (let filename = strip (drop 6 prompt);
          full_path = path_join sessions_data_dir filename
      in if names_no_file full_path then Inl OSError
         else Inr (s\<lparr>sessions := (sessions s)(full_path \<mapsto> history s),
                     stdout := stdout s @ [''Conversation saved to '' @ full_path]\<rparr>))"


section \<open>The front end \<open>main\<close>\<close>

text \<open>
  Lines 268 and 269, and again lines 284 and 285: the user turn is appended to
  \<open>history\<close> and \<open>chat\<close> is called with \<open>prompt\<close>, \<open>decorators\<close>, \<open>history\<close>, \<open>engine\<close>,
  \<open>model\<close> and \<open>temperature\<close>; \<open>max_tokens\<close>, \<open>stream\<close> and \<open>request_timeout\<close> keep their
  defaults 1000, \<open>True\<close> and 15.
\<close>

definition ask ::
  "sdk \<Rightarrow> string list \<Rightarrow> string \<Rightarrow> string \<Rightarrow> real \<Rightarrow> string option \<Rightarrow> state \<Rightarrow>
   (error + string option) \<times> state" where
  "ask lib decorators engine model temperature prompt s =
     (let s1 = s\<lparr>history := history s @ [user_turn prompt]\<rparr>;
          r = chat lib prompt decorators model 1000 True 15 temperature
                (Some (history s1)) engine
      in (returned r, s1\<lparr>sent := sent s1 @ transmitted r\<rparr>))"

text \<open>How a run of \<open>main\<close> ends: it returns, or an exception leaves it.\<close>

datatype exit = Returned | Raised error

text \<open>
  The interactive loop, lines 256 to 271, over the lines that \<open>input\<close> returns. When
  there is no further line \<open>input\<close> raises \<open>EOFError\<close>. No statement of the loop is
  inside a \<open>try\<close>, so an exception raised in its body leaves the loop and \<open>main\<close>.
\<close>

fun interactive_loop ::
  "sdk \<Rightarrow> string \<Rightarrow> string list \<Rightarrow> string \<Rightarrow> string \<Rightarrow> real \<Rightarrow> string list \<Rightarrow> state \<Rightarrow>
   exit \<times> state" where
  "interactive_loop lib dir decorators engine model temperature [] s = (Raised EOFError, s)"
| "interactive_loop lib dir decorators engine model temperature (prompt # inputs) s =
     (if lower prompt = ''/quit'' then (Returned, s)
      else if startswith (lower prompt) ''/save '' then
        (case save_session dir prompt s of
           Inl e \<Rightarrow> (Raised e, s)
         | Inr s' \<Rightarrow> interactive_loop lib dir decorators engine model temperature inputs s')
      else
        (case ask lib decorators engine model temperature (Some prompt) s of
           (Inl e, s') \<Rightarrow> (Raised e, s')
         | (Inr reply, s') \<Rightarrow>
             interactive_loop lib dir decorators engine model temperature inputs
               (s'\<lparr>history := history s' @ [assistant_turn reply],
                    stdout := stdout s' @ [''rbot: '' @ py_str reply]\<rparr>)))"








text \<open>
  The parsed command line, and the surroundings of a run: the sessions directory, the
  default model of each engine, the texts that \<open>load_decorator_files\<close> returns for the
  configured paths, the text files, the session files, what \<open>sys.stdin.readlines\<close>
  returns and the lines that \<open>input\<close> returns.
\<close>

record args =
  args_list_saved :: bool
  args_prompt :: "string option"
  args_prompt_file :: "string option"
  args_interactive :: bool
  args_stdin :: bool
  args_load :: "string option"
  args_engine :: string
  args_model :: "string option"
  args_temperature :: real
  args_nodecorator :: bool

record env =
  sessions_data_dir :: string
  default_model :: "string \<Rightarrow> string"
  decorator_texts :: "string list"
  text_files :: "string \<rightharpoonup> string"
  session_files :: "string \<rightharpoonup> turn list"
  stdin_lines :: "string list"
  user_inputs :: "string list"




section \<open>Vocabulary of the statements\<close>



section \<open>Example runs\<close>

text \<open>
  Provider libraries and surroundings used to run the program on concrete inputs: a
  provider that answers (with a stream when streaming is asked for, with one payload
  otherwise), one that raises on every call, and one that generates nothing.
\<close>

definition echo_lib :: sdk where
  "echo_lib =
     \<lparr>ChatCompletion_create =
        (\<lambda>args. case args of Openai_args mt m rt st t msgs \<Rightarrow>
           if st then Inr (Stream [Some ''Hel'', None, Some [], Some ''lo''] None)
           else Inr (Payload ''Hello'')),
      Client_completion = (\<lambda>args. Inr '' Hello'')\<rparr>"

definition failing_lib :: sdk where
  "failing_lib =
     \<lparr>ChatCompletion_create = (\<lambda>args. Inl (APIError ''timeout'')),
      Client_completion = (\<lambda>args. Inl (APIError ''timeout''))\<rparr>"

definition silent_lib :: sdk where
  "silent_lib =
     \<lparr>ChatCompletion_create = (\<lambda>args. Inr (Stream [None, Some []] None)),
      Client_completion = (\<lambda>args. Inr [])\<rparr>"





definition empty_state :: state where
  "empty_state = \<lparr>history = [], sessions = Map.empty, stdout = [], sent = []\<rparr>"



section \<open>Facts about the dispatcher\<close>






lemma chat_anthropic_transmitted:
  "transmitted (chat lib p ds m mt st rt t h ''anthropic'')
     = [Anthropic (Anthropic_args (HUMAN_PROMPT @ '' '' @ py_str p @ '' '' @ AI_PROMPT)
          [HUMAN_PROMPT] m mt)]"
  by (simp add: chat_def transmitted_def Let_def)

lemma chat_openai_returned:
  assumes "transmitted (chat lib prompt ds model mt st rt t H ''openai'') = [OpenAI args]"
  shows "returned (chat lib prompt ds model mt st rt t H ''openai'')
           = (case ChatCompletion_create lib args of
                Inl e \<Rightarrow> Inl e
              | Inr response \<Rightarrow> iterate_response response)"
  using assms by (simp add: chat_def transmitted_def returned_def Let_def)

lemma chat_anthropic_returned:
  "returned (chat lib prompt ds model mt st rt t H ''anthropic'')
     = (case Client_completion lib
               (Anthropic_args (HUMAN_PROMPT @ '' '' @ py_str prompt @ '' '' @ AI_PROMPT)
                  [HUMAN_PROMPT] model mt) of
          Inl e \<Rightarrow> Inl e
        | Inr completion \<Rightarrow> Inr (Some completion))"
  by (simp add: chat_def returned_def Let_def)

lemma iterate_response_not_None: "iterate_response response \<noteq> Inr None"
  by (cases response rule: iterate_response.cases) simp_all

lemma accumulate_concat:
  "accumulate response tokens
     = response @ concat (map (\<lambda>token. case token of None \<Rightarrow> [] | Some text \<Rightarrow> text) tokens)"
proof (induction tokens arbitrary: response)
  case Nil
  show ?case by simp
next
  case (Cons token tokens)
  then show ?case by (cases token) simp_all
qed

lemma accumulate_nonempty:
  "accumulate response tokens
     = response @ concat (filter (\<lambda>text. text \<noteq> []) (List.map_filter (\<lambda>token. token) tokens))"
proof (induction tokens arbitrary: response)
  case Nil
  show ?case by simp
next
  case (Cons token tokens)
  then show ?case by (cases token) simp_all
qed

section \<open>Facts about the front end\<close>

lemma ask_history: "history (snd (ask lib ds e m t p s)) = history s @ [user_turn p]"
  by (simp add: ask_def Let_def)

lemma ask_sent:
  "sent (snd (ask lib ds e m t p s))
     = sent s @ transmitted (chat lib p ds m 1000 True 15 t
                  (Some (history s @ [user_turn p])) e)"
  by (simp add: ask_def Let_def)



lemma loop_prompt_raises:
  assumes "lower P \<noteq> ''/quit''" and "\<not> startswith (lower P) ''/save ''"
    and "returned (chat lib (Some P) ds model 1000 True 15 t
                     (Some (history s @ [user_turn (Some P)])) engine) = Inl e"
  shows "interactive_loop lib dir ds engine model t (P # inputs) s
           = (Raised e,
              s\<lparr>history := history s @ [user_turn (Some P)],
                sent := sent s @ transmitted (chat lib (Some P) ds model 1000 True 15 t
                                   (Some (history s @ [user_turn (Some P)])) engine)\<rparr>)"
  using assms by (simp add: ask_def Let_def)






section \<open>Facts about texts\<close>





lemma lower_hello: "lower ''hello'' = ''hello''"
  by code_simp





section \<open>The history builder\<close>






section \<open>The session store\<close>







section \<open>The chat-style provider\<close>

text \<open>
  With streaming, the reply is the concatenation, in arrival order, of the contents of
  the chunks that have one and whose content is not empty. This is the part of C4 that
  the program fulfils.
\<close>

lemma chat_stream_reply:
  assumes "transmitted (chat lib prompt ds model mt st rt t H ''openai'') = [OpenAI args]"
    and "ChatCompletion_create lib args = Inr (Stream tokens None)"
  shows "returned (chat lib prompt ds model mt st rt t H ''openai'')
           = Inr (Some (concat (filter (\<lambda>text. text \<noteq> [])
                                  (List.map_filter (\<lambda>token. token) tokens))))"
  using assms by (simp add: chat_openai_returned accumulate_nonempty)

text \<open>
  C4. Without streaming the claim does not hold of the program: the call
  \<open>chat(prompt="Hi", decorators=[], model="gpt-4", stream=False)\<close> hands a request with
  \<open>stream\<close> false to the provider, the provider answers with one payload whose text is
  \<open>Hello\<close>, and \<open>chat\<close> raises \<open>TypeError\<close> instead of returning \<open>Hello\<close>, since it
  iterates the payload as if it were a stream of chunks.
\<close>

theorem chat_without_streaming_raises:
  "transmitted (chat echo_lib (Some ''Hi'') [] ''gpt-4'' 1000 False 15 0.75 None ''openai'')
     = [OpenAI (Openai_args 1000 ''gpt-4'' 15 False 0.75 [user_turn (Some ''Hi'')])]
   \<and> ChatCompletion_create echo_lib
        (Openai_args 1000 ''gpt-4'' 15 False 0.75 [user_turn (Some ''Hi'')])
       = Inr (Payload ''Hello'')
   \<and> returned (chat echo_lib (Some ''Hi'') [] ''gpt-4'' 1000 False 15 0.75 None ''openai'')
       = Inl TypeError"
  by (simp add: chat_def transmitted_def returned_def echo_lib_def Let_def)

section \<open>The single-prompt provider\<close>

text \<open>
  C5. For the engine \<open>anthropic\<close> the prompt handed to the provider is the human marker,
  a space, the content \<open>p\<close> of the latest user turn, a space and the assistant marker,
  and the stop sequences are the human marker alone. \<open>main\<close> appends the user turn
  holding \<open>p\<close> and calls \<open>chat\<close> (the function \<open>ask\<close>): the request added to those sent
  does not depend on the history of the state, so no earlier turn is in it, and the last
  turn of the history is the user turn whose content became the prompt. The same holds of
  every call of \<open>chat\<close>, whatever history \<open>H\<close> it receives.
\<close>

theorem anthropic_latest_user_turn_only:
  "sent (snd (ask lib decorators ''anthropic'' model temperature (Some p) s))
     = sent s @ [Anthropic (Anthropic_args (HUMAN_PROMPT @ '' '' @ p @ '' '' @ AI_PROMPT)
                   [HUMAN_PROMPT] model 1000)]
   \<and> last (history (snd (ask lib decorators ''anthropic'' model temperature (Some p) s)))
       = \<lparr>role = ''user'', content = Some p\<rparr>
   \<and> transmitted (chat lib (Some p) decorators model max_tokens stream request_timeout
                   temperature H ''anthropic'')
       = [Anthropic (Anthropic_args (HUMAN_PROMPT @ '' '' @ p @ '' '' @ AI_PROMPT)
            [HUMAN_PROMPT] model max_tokens)]"
  by (simp add: ask_sent ask_history chat_anthropic_transmitted user_turn_def)

text \<open>
  C10. For the engine \<open>anthropic\<close>, two calls of \<open>chat\<close> with the same prompt, model and
  \<open>max_tokens\<close> hand the same request to the provider, whatever their decorators,
  history, temperature, \<open>stream\<close> and \<open>request_timeout\<close> are (and whatever the provider
  libraries answer).
\<close>

theorem anthropic_request_independent:
  "transmitted (chat lib prompt decorators model max_tokens stream request_timeout
                 temperature H ''anthropic'')
     = transmitted (chat lib' prompt decorators' model max_tokens stream' request_timeout'
                     temperature' H' ''anthropic'')"
  by (simp add: chat_anthropic_transmitted)

section \<open>What the dispatcher returns\<close>

text \<open>
  C8 does not hold for every engine name: for a name other than \<open>openai\<close> and
  \<open>anthropic\<close>, here \<open>google\<close>, \<open>chat\<close> hands nothing to a provider and returns \<open>None\<close>.
\<close>

theorem chat_other_engine_returns_None:
  "transmitted (chat echo_lib (Some ''Hi'') [] ''gemini-pro'' 1000 True 15 0.75 None ''google'')
     = []
   \<and> returned (chat echo_lib (Some ''Hi'') [] ''gemini-pro'' 1000 True 15 0.75 None ''google'')
       = Inr None"
  by (simp add: chat_def transmitted_def returned_def)

text \<open>
  C8, amended. For the engines \<open>openai\<close> and \<open>anthropic\<close>, \<open>chat\<close> never returns
  \<open>None\<close>. With \<open>openai\<close> and a stream that ends without raising it returns the
  accumulated text, which is the empty text when no chunk has a content or every content
  is empty; with \<open>anthropic\<close> it returns the completion text of the provider's answer.
\<close>

theorem chat_returns_text:
  "(engine = ''openai'' \<or> engine = ''anthropic''
      \<longrightarrow> returned (chat lib prompt ds model mt st rt t H engine) \<noteq> Inr None)
   \<and> (transmitted (chat lib prompt ds model mt st rt t H ''openai'') = [OpenAI args]
        \<and> ChatCompletion_create lib args = Inr (Stream tokens None)
      \<longrightarrow> returned (chat lib prompt ds model mt st rt t H ''openai'')
            = Inr (Some (accumulate [] tokens)))
   \<and> (transmitted (chat lib prompt ds model mt st rt t H ''openai'') = [OpenAI args]
        \<and> ChatCompletion_create lib args = Inr (Stream tokens None)
        \<and> (\<forall>token \<in> set tokens. token = None \<or> token = Some [])
      \<longrightarrow> returned (chat lib prompt ds model mt st rt t H ''openai'') = Inr (Some []))
   \<and> (transmitted (chat lib prompt ds model mt st rt t H ''anthropic'') = [Anthropic args']
        \<and> Client_completion lib args' = Inr completion
      \<longrightarrow> returned (chat lib prompt ds model mt st rt t H ''anthropic'')
            = Inr (Some completion))"
proof (intro conjI impI)
  assume "engine = ''openai'' \<or> engine = ''anthropic''"
  then show "returned (chat lib prompt ds model mt st rt t H engine) \<noteq> Inr None"
  proof
    assume "engine = ''openai''"
    then show ?thesis
      by (simp add: chat_def returned_def Let_def iterate_response_not_None
            split: sum.splits)
  next
    assume "engine = ''anthropic''"
    then show ?thesis
      by (simp add: chat_anthropic_returned split: sum.splits)
  qed
next
  assume "transmitted (chat lib prompt ds model mt st rt t H ''openai'') = [OpenAI args]
        \<and> ChatCompletion_create lib args = Inr (Stream tokens None)"
  then show "returned (chat lib prompt ds model mt st rt t H ''openai'')
            = Inr (Some (accumulate [] tokens))"
    by (simp add: chat_openai_returned)
next
  assume h: "transmitted (chat lib prompt ds model mt st rt t H ''openai'') = [OpenAI args]
        \<and> ChatCompletion_create lib args = Inr (Stream tokens None)
        \<and> (\<forall>token \<in> set tokens. token = None \<or> token = Some [])"
  then have "map (\<lambda>token. case token of None \<Rightarrow> [] | Some text \<Rightarrow> text) tokens
               = map (\<lambda>token. []) tokens"
    by (intro map_cong) auto
  then have "accumulate [] tokens = []"
    by (simp add: accumulate_concat)
  with h show "returned (chat lib prompt ds model mt st rt t H ''openai'') = Inr (Some [])"
    by (simp add: chat_openai_returned)
next
  assume "transmitted (chat lib prompt ds model mt st rt t H ''anthropic'') = [Anthropic args']
        \<and> Client_completion lib args' = Inr completion"
  then show "returned (chat lib prompt ds model mt st rt t H ''anthropic'')
            = Inr (Some completion)"
    by (simp add: chat_anthropic_returned chat_anthropic_transmitted)
qed

text \<open>A provider that generates nothing: both engines return the empty text.\<close>

theorem chat_returns_text_witness:
  "returned (chat silent_lib (Some ''Hi'') [] ''gpt-4'' 1000 True 15 0.75 None ''openai'')
     \<noteq> Inr None
   \<and> returned (chat silent_lib (Some ''Hi'') [] ''gpt-4'' 1000 True 15 0.75 None ''openai'')
       = Inr (Some [])
   \<and> returned (chat silent_lib (Some ''Hi'') [] ''claude-2'' 1000 True 15 0.75 None
                 ''anthropic'')
       = Inr (Some [])"
proof -
  have t: "transmitted (chat silent_lib (Some ''Hi'') [] ''gpt-4'' 1000 True 15 0.75 None
                          ''openai'')
             = [OpenAI (Openai_args 1000 ''gpt-4'' 15 True 0.75 [user_turn (Some ''Hi'')])]"
    by (simp add: chat_def transmitted_def Let_def)
  have c: "ChatCompletion_create silent_lib
             (Openai_args 1000 ''gpt-4'' 15 True 0.75 [user_turn (Some ''Hi'')])
             = Inr (Stream [None, Some []] None)"
    by (simp add: silent_lib_def)
  have c': "Client_completion silent_lib
              (Anthropic_args (HUMAN_PROMPT @ '' '' @ ''Hi'' @ '' '' @ AI_PROMPT)
                 [HUMAN_PROMPT] ''claude-2'' 1000)
              = Inr []"
    by (simp add: silent_lib_def)
  note openai = chat_returns_text
    [where lib = silent_lib and prompt = "Some ''Hi''" and ds = "[]" and model = "''gpt-4''"
       and mt = 1000 and st = True and rt = 15 and t = "0.75" and H = None
       and engine = "''openai''" and tokens = "[None, Some []]"
       and args = "Openai_args 1000 ''gpt-4'' 15 True 0.75 [user_turn (Some ''Hi'')]"]
  note anthropic = chat_returns_text
    [where lib = silent_lib and prompt = "Some ''Hi''" and ds = "[]" and model = "''claude-2''"
       and mt = 1000 and st = True and rt = 15 and t = "0.75" and H = None
       and args' = "Anthropic_args (HUMAN_PROMPT @ '' '' @ ''Hi'' @ '' '' @ AI_PROMPT)
                      [HUMAN_PROMPT] ''claude-2'' 1000"
       and completion = "[]"]
  from openai t c have "returned (chat silent_lib (Some ''Hi'') [] ''gpt-4'' 1000 True 15 0.75
                          None ''openai'') \<noteq> Inr None"
    and "returned (chat silent_lib (Some ''Hi'') [] ''gpt-4'' 1000 True 15 0.75
                     None ''openai'') = Inr (Some [])"
    by simp_all
  moreover from anthropic c'
  have "returned (chat silent_lib (Some ''Hi'') [] ''claude-2'' 1000 True 15 0.75 None
                    ''anthropic'') = Inr (Some [])"
    by (simp add: chat_anthropic_transmitted)
  ultimately show ?thesis by simp
qed

section \<open>Provider failures\<close>

text \<open>
  C6 does not hold of the interactive loop: with a provider that raises, the run over
  the lines \<open>hello\<close> and \<open>/quit\<close> ends with the provider's exception after the first
  line. The second line is never read (reading it would make the run return), and nothing
  is printed.
\<close>

theorem loop_ends_on_provider_failure:
  "interactive_loop failing_lib ''/data/sessions'' [] ''openai'' ''gpt-4'' 0.75
     [''hello'', ''/quit''] empty_state
   = (Raised (APIError ''timeout''),
      \<lparr>history = [user_turn (Some ''hello'')], sessions = Map.empty, stdout = [],
       sent = [OpenAI (Openai_args 1000 ''gpt-4'' 15 True 0.75 [user_turn (Some ''hello'')])]\<rparr>)"
  by (simp add: lower_hello ask_def chat_def transmitted_def returned_def Let_def
        failing_lib_def empty_state_def)

text \<open>
  C6, amended. An exception \<open>e\<close> raised by the provider library, at the call or while
  the stream is read, leaves \<open>chat\<close> as it is: it is not wrapped into another error. In
  the interactive loop, when \<open>chat\<close> raises \<open>e\<close> for the prompt \<open>P\<close>, the loop ends with
  \<open>e\<close> and reads no further line; the history then is the one before with the user turn
  of \<open>P\<close> as its last entry and no assistant turn, and the session files and the printed
  lines are as before.
\<close>

theorem provider_failure_propagates:
  "(transmitted (chat lib prompt ds model mt st rt t H ''openai'') = [OpenAI args]
      \<and> (ChatCompletion_create lib args = Inl e
          \<or> ChatCompletion_create lib args = Inr (Stream tokens (Some e)))
    \<longrightarrow> returned (chat lib prompt ds model mt st rt t H ''openai'') = Inl e)
   \<and> (transmitted (chat lib prompt ds model mt st rt t H ''anthropic'') = [Anthropic args']
      \<and> Client_completion lib args' = Inl e
    \<longrightarrow> returned (chat lib prompt ds model mt st rt t H ''anthropic'') = Inl e)
   \<and> (lower P \<noteq> ''/quit'' \<and> \<not> startswith (lower P) ''/save ''
      \<and> returned (chat lib (Some P) ds model 1000 True 15 t
                    (Some (history s @ [user_turn (Some P)])) engine) = Inl e
    \<longrightarrow> interactive_loop lib dir ds engine model t (P # inputs) s
          = (Raised e,
             s\<lparr>history := history s @ [user_turn (Some P)],
               sent := sent s @ transmitted (chat lib (Some P) ds model 1000 True 15 t
                                  (Some (history s @ [user_turn (Some P)])) engine)\<rparr>))"
proof (intro conjI impI)
  assume "transmitted (chat lib prompt ds model mt st rt t H ''openai'') = [OpenAI args]
      \<and> (ChatCompletion_create lib args = Inl e
          \<or> ChatCompletion_create lib args = Inr (Stream tokens (Some e)))"
  then show "returned (chat lib prompt ds model mt st rt t H ''openai'') = Inl e"
    by (auto simp add: chat_openai_returned)
next
  assume "transmitted (chat lib prompt ds model mt st rt t H ''anthropic'') = [Anthropic args']
      \<and> Client_completion lib args' = Inl e"
  then show "returned (chat lib prompt ds model mt st rt t H ''anthropic'') = Inl e"
    by (simp add: chat_anthropic_returned chat_anthropic_transmitted)
next
  assume h: "lower P \<noteq> ''/quit'' \<and> \<not> startswith (lower P) ''/save ''
      \<and> returned (chat lib (Some P) ds model 1000 True 15 t
                    (Some (history s @ [user_turn (Some P)])) engine) = Inl e"
  show "interactive_loop lib dir ds engine model t (P # inputs) s
          = (Raised e,
             s\<lparr>history := history s @ [user_turn (Some P)],
               sent := sent s @ transmitted (chat lib (Some P) ds model 1000 True 15 t
                                  (Some (history s @ [user_turn (Some P)])) engine)\<rparr>)"
    by (rule loop_prompt_raises) (use h in simp_all)
qed

text \<open>
  The provider that raises \<open>timeout\<close>: \<open>chat\<close> raises it for both engines, and the loop
  over \<open>hello\<close> and \<open>/quit\<close> ends with it, the user turn being the only entry of the
  history.
\<close>

theorem provider_failure_propagates_witness:
  "returned (chat failing_lib (Some ''hello'') [] ''gpt-4'' 1000 True 15 0.75
               (Some [user_turn (Some ''hello'')]) ''openai'') = Inl (APIError ''timeout'')
   \<and> returned (chat failing_lib (Some ''hello'') [] ''gpt-4'' 1000 True 15 0.75
               (Some [user_turn (Some ''hello'')]) ''anthropic'') = Inl (APIError ''timeout'')
   \<and> fst (interactive_loop failing_lib ''/data/sessions'' [] ''openai'' ''gpt-4'' 0.75
             [''hello'', ''/quit''] empty_state) = Raised (APIError ''timeout'')
   \<and> history (snd (interactive_loop failing_lib ''/data/sessions'' [] ''openai'' ''gpt-4'' 0.75
             [''hello'', ''/quit''] empty_state)) = [user_turn (Some ''hello'')]"
proof -
  note inst = provider_failure_propagates
    [where lib = failing_lib and prompt = "Some ''hello''" and ds = "[]"
       and model = "''gpt-4''" and mt = 1000 and st = True and rt = 15 and t = "0.75"
       and H = "Some [user_turn (Some ''hello'')]"
       and args = "Openai_args 1000 ''gpt-4'' 15 True 0.75 [user_turn (Some ''hello'')]"
       and args' = "Anthropic_args (HUMAN_PROMPT @ '' '' @ ''hello'' @ '' '' @ AI_PROMPT)
                      [HUMAN_PROMPT] ''gpt-4'' 1000"
       and e = "APIError ''timeout''" and P = "''hello''" and s = empty_state
       and engine = "''openai''" and dir = "''/data/sessions''" and inputs = "[''/quit'']"]
  have t1: "transmitted (chat failing_lib (Some ''hello'') [] ''gpt-4'' 1000 True 15 0.75
               (Some [user_turn (Some ''hello'')]) ''openai'')
        = [OpenAI (Openai_args 1000 ''gpt-4'' 15 True 0.75 [user_turn (Some ''hello'')])]"
    by (simp add: chat_def transmitted_def Let_def)
  have c1: "ChatCompletion_create failing_lib
              (Openai_args 1000 ''gpt-4'' 15 True 0.75 [user_turn (Some ''hello'')])
        = Inl (APIError ''timeout'')"
    by (simp add: failing_lib_def)
  have c2: "Client_completion failing_lib
              (Anthropic_args (HUMAN_PROMPT @ '' '' @ ''hello'' @ '' '' @ AI_PROMPT)
                      [HUMAN_PROMPT] ''gpt-4'' 1000)
        = Inl (APIError ''timeout'')"
    by (simp add: failing_lib_def)
  have r1: "returned (chat failing_lib (Some ''hello'') [] ''gpt-4'' 1000 True 15 0.75
               (Some [user_turn (Some ''hello'')]) ''openai'') = Inl (APIError ''timeout'')"
    using inst t1 c1 by simp
  have r2: "returned (chat failing_lib (Some ''hello'') [] ''gpt-4'' 1000 True 15 0.75
               (Some [user_turn (Some ''hello'')]) ''anthropic'') = Inl (APIError ''timeout'')"
    using inst c2 by (simp add: chat_anthropic_transmitted)
  have r3: "interactive_loop failing_lib ''/data/sessions'' [] ''openai'' ''gpt-4'' 0.75
             [''hello'', ''/quit''] empty_state
        = (Raised (APIError ''timeout''),
           empty_state\<lparr>history := history empty_state @ [user_turn (Some ''hello'')],
             sent := sent empty_state @
               transmitted (chat failing_lib (Some ''hello'') [] ''gpt-4'' 1000 True 15 0.75
                 (Some (history empty_state @ [user_turn (Some ''hello'')])) ''openai'')\<rparr>)"
    using inst r1 lower_hello by (simp add: empty_state_def del: interactive_loop.simps)
  show ?thesis using r1 r2 r3 by (simp add: empty_state_def del: interactive_loop.simps)
qed

section \<open>The structured output of a reply\<close>

















section \<open>A non-interactive run without a prompt\<close>




end
